theory Spec2Isabelle
  imports Main "HOL-Library.AList"
begin

section \<open>Monitor health checking (pkg/operator/ceph/cluster/mon/health.go)\<close>

subsection \<open>Time and machine integers\<close>

text \<open>
  A Go \<open>time.Duration\<close> counts nanoseconds; a clock reading is modelled as the number
  of nanoseconds since some fixed origin, so that \<open>time.Since t\<close> is the current reading
  minus \<open>t\<close>.
\<close>

definition Second :: int where
  "Second = 1000000000"

definition HealthCheckInterval :: int where
  "HealthCheckInterval = 45 * Second"

definition MonOutTimeout :: int where
  "MonOutTimeout = 600 * Second"

text \<open>
  Go's \<open>int\<close> is a 64-bit two's complement integer on the platforms the operator is built
  for: \<open>+\<close> and \<open>++\<close> wrap around.
\<close>

definition MaxInt :: int where
  "MaxInt = 2 ^ 63 - 1"

definition int_wrap :: "int \<Rightarrow> int" where
  "int_wrap x = (x + 2 ^ 63) mod 2 ^ 64 - 2 ^ 63"

definition int_add :: "int \<Rightarrow> int \<Rightarrow> int" where
  "int_add a b = int_wrap (a + b)"

subsection \<open>Data\<close>

text \<open>\<open>client.MonMapEntry\<close> and \<open>client.MonStatusResponse\<close> (field \<open>MonMap.Mons\<close> flattened).\<close>

record MonMapEntry =
  Name :: string
  Rank :: int
  Address :: string

record MonStatusResponse =
  Quorum :: "int list"
  Mons :: "MonMapEntry list"

text \<open>\<open>cephconfig.MonInfo\<close>, the value type of \<open>clusterInfo.Monitors\<close>.\<close>

record MonInfo =
  monName :: string
  Endpoint :: string

record NodeInfo =
  nodeName :: string
  nodeAddress :: string

record monConfig =
  ResourceName :: string
  DaemonName :: string
  PublicIP :: string
  Port :: int

text \<open>
  The fields of \<open>Cluster\<close> that health.go reads or writes. \<open>Monitors\<close> is
  \<open>c.clusterInfo.Monitors\<close>, a Go map that the health check ranges over and measures with
  \<open>len\<close>: it is an association list with distinct keys, updated with \<open>AList.update\<close> and
  \<open>AList.delete\<close>. Go leaves the iteration order of a map unspecified; the order of the
  list stands for the order one run happens to use, and no statement below fixes it.
  \<open>monTimeoutList\<close> and \<open>mappingNode\<close> (\<open>c.mapping.Node\<close>) are only looked up, stored to
  and deleted from. \<open>specMonCount\<close> is \<open>c.spec.Mon.Count\<close>.
\<close>

record Cluster =
  Monitors :: "(string \<times> MonInfo) list"
  monTimeoutList :: "string \<rightharpoonup> int"
  maxMonID :: int
  mappingNode :: "string \<rightharpoonup> NodeInfo"
  HostNetwork :: bool
  specMonCount :: int

subsection \<open>Collaborators\<close>

text \<open>
  Everything health.go calls outside itself acts on a world \<open>'w\<close> (the Kubernetes API
  server, the Ceph cluster, the config store, the clock) that is left abstract: each
  operation takes the world and returns its answer with the new world. The signatures
  are those of the interfaces the functions are called through; the deletions tell
  "not found" from any other error because \<open>removeMon\<close> asks \<open>errors.IsNotFound\<close>.
\<close>

datatype ext_result = OK | Failed

datatype delete_result = Deleted | NotFound | DeleteError

record 'w Context =
  GetMonStatus :: "'w \<Rightarrow> MonStatusResponse option \<times> 'w"
  Now :: "'w \<Rightarrow> int"
  monInQuorum :: "MonMapEntry \<Rightarrow> int list \<Rightarrow> bool"
  resourceName :: "string \<Rightarrow> string"
  newMonConfig :: "int \<Rightarrow> monConfig"
  NewMonInfo :: "string \<Rightarrow> string \<Rightarrow> int \<Rightarrow> MonInfo"
  DeleteDeployment :: "string \<Rightarrow> 'w \<Rightarrow> delete_result \<times> 'w"
  DeleteService :: "string \<Rightarrow> 'w \<Rightarrow> delete_result \<times> 'w"
  RunCephCommand :: "string list \<Rightarrow> 'w \<Rightarrow> ext_result \<times> 'w"
  saveMonConfig :: "Cluster \<Rightarrow> 'w \<Rightarrow> ext_result \<times> 'w"
  WriteConnectionConfig :: "(string \<times> MonInfo) list \<Rightarrow> 'w \<Rightarrow> ext_result \<times> 'w"
  Assign :: "monConfig \<Rightarrow> 'w \<Rightarrow> NodeInfo option \<times> 'w"
  createService :: "monConfig \<Rightarrow> 'w \<Rightarrow> string option \<times> 'w"
  startDeployments :: "monConfig list \<Rightarrow> bool \<Rightarrow> Cluster \<Rightarrow> 'w \<Rightarrow> ext_result \<times> 'w"
  startMons :: "int \<Rightarrow> Cluster \<Rightarrow> 'w \<Rightarrow> ext_result \<times> Cluster \<times> 'w"

text \<open>One constructor for each place where health.go builds an error.\<close>

datatype error =
    FailedGetMonStatus
  | FailedPlaceNewMon
  | MonNotInAssignmentMap string
  | FailedCreateMonService
  | FailedStartNewMon string
  | FailedRemoveDeployment string
  | MonRemoveFailed string
  | FailedRemoveService string
  | FailedSaveMonConfig string
  | FailedWriteConnectionConfig string
  | StartMonsFailed

subsection \<open>removeMon\<close>

definition removeMonitorFromQuorum :: "'w Context \<Rightarrow> string \<Rightarrow> 'w \<Rightarrow> error option \<times> 'w" where
  "removeMonitorFromQuorum ctx name w =
     (case RunCephCommand ctx [''mon'', ''remove'', name] w of
        (Failed, w') \<Rightarrow> (Some (MonRemoveFailed name), w')
      | (OK, w') \<Rightarrow> (None, w'))"

definition removeMon :: "'w Context \<Rightarrow> string \<Rightarrow> Cluster \<times> 'w \<Rightarrow> error option \<times> Cluster \<times> 'w" where
  "removeMon ctx daemonName s =
     (case s of (c, w) \<Rightarrow>
      let rn = resourceName ctx daemonName in
      case DeleteDeployment ctx rn w of (r1, w1) \<Rightarrow>
      if r1 = DeleteError then (Some (FailedRemoveDeployment rn), c, w1)
      else
        case removeMonitorFromQuorum ctx daemonName w1 of
          (Some e, w2) \<Rightarrow> (Some e, c, w2)
        | (None, w2) \<Rightarrow>
            let c1 = c\<lparr>Monitors := AList.delete daemonName (Monitors c)\<rparr>;
                c2 = (if mappingNode c1 daemonName \<noteq> None
                      then c1\<lparr>mappingNode := (mappingNode c1)(daemonName := None)\<rparr>
                      else c1)
            in
            case DeleteService ctx rn w2 of (r3, w3) \<Rightarrow>
            if r3 = DeleteError then (Some (FailedRemoveService rn), c2, w3)
            else
              case saveMonConfig ctx c2 w3 of
                (Failed, w4) \<Rightarrow> (Some (FailedSaveMonConfig daemonName), c2, w4)
              | (OK, w4) \<Rightarrow>
                  (case WriteConnectionConfig ctx (Monitors c2) w4 of
                     (Failed, w5) \<Rightarrow> (Some (FailedWriteConnectionConfig daemonName), c2, w5)
                   | (OK, w5) \<Rightarrow> (None, c2, w5)))"

subsection \<open>failoverMon\<close>

text \<open>
  Modelled from the spec: \<open>assignMons\<close>, of this package but not in health.go. The spec
  gives placement as \<open>Assign(newDaemon) \<rightarrow> node | error\<close> and the node assignment map as
  daemon name \<open>\<rightarrow>\<close> assigned node: each daemon of the list is assigned in turn and recorded
  in \<open>c.mapping.Node\<close>; the first failure ends the call with an error.
\<close>

fun assignMons :: "'w Context \<Rightarrow> monConfig list \<Rightarrow> Cluster \<times> 'w \<Rightarrow> ext_result \<times> Cluster \<times> 'w" where
  "assignMons ctx [] (c, w) = (OK, c, w)"
| "assignMons ctx (m # ms) (c, w) =
     (case Assign ctx m w of
        (None, w') \<Rightarrow> (Failed, c, w')
      | (Some node, w') \<Rightarrow>
          assignMons ctx ms (c\<lparr>mappingNode := (mappingNode c)(DaemonName m \<mapsto> node)\<rparr>, w'))"

text \<open>
  The part of \<open>failoverMon\<close> after the new daemon's address is known: record it in the
  membership, start its deployment, and only then count the identity as used and remove
  the old daemon.
\<close>

definition startAndRemove ::
  "'w Context \<Rightarrow> string \<Rightarrow> monConfig \<Rightarrow> Cluster \<times> 'w \<Rightarrow> error option \<times> Cluster \<times> 'w" where
  "startAndRemove ctx name m s =
     (case s of (c, w) \<Rightarrow>
      let c1 = c\<lparr>Monitors :=
                   AList.update (DaemonName m)
                     (NewMonInfo ctx (DaemonName m) (PublicIP m) (Port m)) (Monitors c)\<rparr>
      in
      case startDeployments ctx [m] True c1 w of
        (Failed, w1) \<Rightarrow> (Some (FailedStartNewMon (DaemonName m)), c1, w1)
      | (OK, w1) \<Rightarrow>
          removeMon ctx name (c1\<lparr>maxMonID := int_add (maxMonID c1) 1\<rparr>, w1))"

definition failoverMon :: "'w Context \<Rightarrow> string \<Rightarrow> Cluster \<times> 'w \<Rightarrow> error option \<times> Cluster \<times> 'w" where
  "failoverMon ctx name s =
     (case s of (c, w) \<Rightarrow>
      let m = newMonConfig ctx (int_add (maxMonID c) 1) in
      case assignMons ctx [m] (c, w) of
        (Failed, c1, w1) \<Rightarrow> (Some FailedPlaceNewMon, c1, w1)
      | (OK, c1, w1) \<Rightarrow>
          if HostNetwork c1 then
            (case mappingNode c1 (DaemonName m) of
               None \<Rightarrow> (Some (MonNotInAssignmentMap (DaemonName m)), c1, w1)
             | Some node \<Rightarrow>
                 startAndRemove ctx name (m\<lparr>PublicIP := nodeAddress node\<rparr>) (c1, w1))
          else
            (case createService ctx m w1 of
               (None, w2) \<Rightarrow> (Some FailedCreateMonService, c1, w2)
             | (Some serviceIP, w2) \<Rightarrow>
                 startAndRemove ctx name (m\<lparr>PublicIP := serviceIP\<rparr>) (c1, w2)))"

subsection \<open>failMon and checkHealth\<close>

text \<open>
  What \<open>checkHealth\<close> did is observed through the list of remedial calls it made, one
  entry for each call, in order: \<open>StaleRemoval\<close> is the \<open>removeMon\<close> of the scan (a reported
  daemon missing from the membership), \<open>Removal\<close> and \<open>Failover\<close> are the two branches of
  \<open>failMon\<close>, \<open>ScaleUp\<close> is \<open>startMons\<close> and \<open>ScaleDown\<close> the last \<open>removeMon\<close>.
\<close>

datatype action =
    StaleRemoval string
  | Removal string
  | Failover string
  | ScaleUp int
  | ScaleDown string

text \<open>\<open>failMon\<close> logs the error of the call it makes and returns nothing.\<close>

definition failMon ::
  "'w Context \<Rightarrow> int \<Rightarrow> int \<Rightarrow> string \<Rightarrow> Cluster \<times> 'w \<Rightarrow> action \<times> Cluster \<times> 'w" where
  "failMon ctx monCount desiredMonCount name s =
     (if monCount > desiredMonCount
      then (case removeMon ctx name s of (err, s') \<Rightarrow> (Removal name, s'))
      else (case failoverMon ctx name s of (err, s') \<Rightarrow> (Failover name, s')))"

text \<open>
  The locals and the state that the scan of \<open>status.MonMap.Mons\<close> carries from one
  reported daemon to the next. \<open>monsNotFound\<close> is a Go map used as a set; it is kept as a
  list without duplicates (see \<open>Monitors\<close> for the order).
\<close>

record 'w scan_state =
  monsNotFound :: "string list"
  allMonsInQuorum :: bool
  cluster :: Cluster
  world :: "'w"
  actions :: "action list"

datatype 'a loop_exit = Return 'a | Fallthrough 'a

text \<open>
  One iteration of the first loop of \<open>checkHealth\<close>. \<open>time.Now\<close> and \<open>time.Since\<close> read
  the clock of the same world, no call to a collaborator lying between them.
\<close>

definition scanMon ::
  "'w Context \<Rightarrow> MonStatusResponse \<Rightarrow> int \<Rightarrow> MonMapEntry \<Rightarrow> 'w scan_state
     \<Rightarrow> 'w scan_state loop_exit" where
  "scanMon ctx status desiredMonCount mon s =
     (let inQuorum = monInQuorum ctx mon (Quorum status);
          s1 = (if Name mon \<in> set (monsNotFound s)
                then s\<lparr>monsNotFound := removeAll (Name mon) (monsNotFound s)\<rparr>
                else if inQuorum \<and> int (length (Mons status)) > desiredMonCount
                then (case removeMon ctx (Name mon) (cluster s, world s) of
                        (err, c', w') \<Rightarrow>
                          s\<lparr>cluster := c', world := w',
                            actions := actions s @ [StaleRemoval (Name mon)]\<rparr>)
                else s);
          tl = monTimeoutList (cluster s1)
      in
      if inQuorum
      then Fallthrough (s1\<lparr>cluster := (cluster s1)\<lparr>monTimeoutList := tl(Name mon := None)\<rparr>\<rparr>)
      else
        let now = Now ctx (world s1);
            (tl1, t0) = (case tl (Name mon) of
                           None \<Rightarrow> (tl(Name mon \<mapsto> now), now)
                         | Some t \<Rightarrow> (tl, t));
            s2 = s1\<lparr>allMonsInQuorum := False,
                    cluster := (cluster s1)\<lparr>monTimeoutList := tl1\<rparr>\<rparr>
        in
        if now - t0 \<le> MonOutTimeout then Fallthrough s2
        else
          (case failMon ctx (int (length (Mons status))) desiredMonCount (Name mon)
                  (cluster s2, world s2) of
             (a, c', w') \<Rightarrow>
               Return (s2\<lparr>cluster := c', world := w', actions := actions s2 @ [a]\<rparr>)))"

fun scanMons ::
  "'w Context \<Rightarrow> MonStatusResponse \<Rightarrow> int \<Rightarrow> MonMapEntry list \<Rightarrow> 'w scan_state
     \<Rightarrow> 'w scan_state loop_exit" where
  "scanMons ctx status desiredMonCount [] s = Fallthrough s"
| "scanMons ctx status desiredMonCount (mon # rest) s =
     (case scanMon ctx status desiredMonCount mon s of
        Return s' \<Rightarrow> Return s'
      | Fallthrough s' \<Rightarrow> scanMons ctx status desiredMonCount rest s')"

text \<open>
  \<open>checkHealth\<close> returns an error or nil, or panics: \<open>status.MonMap.Mons[0]\<close> on an empty
  report is an index out of range.
\<close>

datatype outcome = Returned "error option" | Panicked

text \<open>The rest of \<open>checkHealth\<close>, after the scan has run through the whole report.\<close>

definition afterScan ::
  "'w Context \<Rightarrow> MonStatusResponse \<Rightarrow> int \<Rightarrow> 'w scan_state
     \<Rightarrow> outcome \<times> Cluster \<times> 'w \<times> action list" where
  "afterScan ctx status desiredMonCount s =
     (case monsNotFound s of
        mon # others \<Rightarrow>
          (case failMon ctx (int (length (Monitors (cluster s)))) desiredMonCount mon
                  (cluster s, world s) of
             (a, c', w') \<Rightarrow> (Returned None, c', w', actions s @ [a]))
      | [] \<Rightarrow>
          if int (length (Mons status)) < desiredMonCount then
            (case startMons ctx desiredMonCount (cluster s) (world s) of
               (r, c', w') \<Rightarrow>
                 (Returned (case r of OK \<Rightarrow> None | Failed \<Rightarrow> Some StartMonsFailed),
                  c', w', actions s @ [ScaleUp desiredMonCount]))
          else if allMonsInQuorum s \<and> int (length (Mons status)) > desiredMonCount then
            (if desiredMonCount < 2 \<and> length (Mons status) = 2
             then (Returned None, cluster s, world s, actions s)
             else
               (case Mons status of
                  [] \<Rightarrow> (Panicked, cluster s, world s, actions s)
                | m0 # ms \<Rightarrow>
                    (case removeMon ctx (Name m0) (cluster s, world s) of
                       (err, c', w') \<Rightarrow>
                         (Returned err, c', w', actions s @ [ScaleDown (Name m0)]))))
          else (Returned None, cluster s, world s, actions s))"

definition scanInit :: "Cluster \<Rightarrow> 'w \<Rightarrow> 'w scan_state" where
  "scanInit c w =
     \<lparr>monsNotFound = remdups (map (\<lambda>kv. monName (snd kv)) (Monitors c)),
      allMonsInQuorum = True, cluster = c, world = w, actions = []\<rparr>"

text \<open>
  The orchestration lock that \<open>checkHealth\<close> takes and releases is not modelled: one
  call runs alone. The result is what the call returns, the cluster and the world it
  leaves, and the remedial calls it made.
\<close>

definition checkHealth ::
  "'w Context \<Rightarrow> Cluster \<times> 'w \<Rightarrow> outcome \<times> Cluster \<times> 'w \<times> action list" where
  "checkHealth ctx s0 =
     (case s0 of (c, w) \<Rightarrow>
      let desiredMonCount = specMonCount c in
      case GetMonStatus ctx w of
        (None, w1) \<Rightarrow> (Returned (Some FailedGetMonStatus), c, w1, [])
      | (Some status, w1) \<Rightarrow>
          (case scanMons ctx status desiredMonCount (Mons status) (scanInit c w1) of
             Return s \<Rightarrow> (Returned None, cluster s, world s, actions s)
           | Fallthrough s \<Rightarrow> afterScan ctx status desiredMonCount s))"

section \<open>Rolling update of a stateful set (pkg/operator/k8sutil/statefulset.go)\<close>

text \<open>
  The fields of \<open>apps.StatefulSet\<close> that the update reads: \<open>UpdateStrategyType\<close> is
  \<open>Spec.UpdateStrategy.Type\<close>, the other three are fields of \<open>Status\<close>.
\<close>

record StatefulSet =
  stsName :: string
  UpdateStrategyType :: string
  ObservedGeneration :: int
  UpdatedReplicas :: int
  ReadyReplicas :: int

definition RollingUpdateStatefulSetStrategyType :: string where
  "RollingUpdateStatefulSetStrategyType = ''RollingUpdate''"

definition OnDeleteStatefulSetStrategyType :: string where
  "OnDeleteStatefulSetStrategyType = ''OnDelete''"

record 'w Clientset =
  GetStatefulSet :: "string \<Rightarrow> string \<Rightarrow> 'w \<Rightarrow> StatefulSet option \<times> 'w"
  UpdateStatefulSet :: "string \<Rightarrow> StatefulSet \<Rightarrow> 'w \<Rightarrow> ext_result \<times> 'w"
  Sleep :: "int \<Rightarrow> 'w \<Rightarrow> 'w"

datatype sts_error =
    FailedGetStatefulSet string
  | NotRollingUpdate
  | FailedCheckCanBeUpdated string
  | FailedUpdateStatefulSet string
  | FailedCheckCanContinue string
  | GaveUpWaiting string

text \<open>
  The calls the update makes, in order, each with the answer it got: reads and the
  update of the live resource, the verification callback with its intent, and the waits
  with their length.
\<close>

datatype call =
    GetCall "StatefulSet option"
  | UpdateCall ext_result
  | VerifyCall string ext_result
  | SleepCall int

text \<open>
  Modelled from the spec: \<open>util.Retry\<close>, of this repository but not under src/. The spec
  says of the verification before the update: "retried up to 5 times with a 60-second
  fixed delay between attempts; exhausting retries is Failed".
\<close>

fun Retry ::
  "'w Clientset \<Rightarrow> nat \<Rightarrow> int \<Rightarrow> ('w \<times> call list \<Rightarrow> ext_result \<times> 'w \<times> call list)
     \<Rightarrow> 'w \<times> call list \<Rightarrow> ext_result \<times> 'w \<times> call list" where
  "Retry cs 0 delay f s = f s"
| "Retry cs (Suc n) delay f s =
     (case f s of
        (OK, s') \<Rightarrow> (OK, s')
      | (Failed, w, tr) \<Rightarrow> Retry cs n delay f (Sleep cs delay w, tr @ [SleepCall delay]))"

definition sleepTime :: int where
  "sleepTime = 2"

definition attempts :: nat where
  "attempts = 30"

text \<open>The loop \<open>for i := 0; i < attempts; i++\<close> that waits for the update to complete.\<close>

function waitForUpdate ::
  "'w Clientset \<Rightarrow> StatefulSet \<Rightarrow> string \<Rightarrow> (string \<Rightarrow> 'w \<Rightarrow> ext_result \<times> 'w)
     \<Rightarrow> StatefulSet \<Rightarrow> nat \<Rightarrow> 'w \<times> call list
     \<Rightarrow> (sts_error + StatefulSet) \<times> 'w \<times> call list" where
  "waitForUpdate cs sts namespace verifyCallback original i (w, tr) =
     (if i < attempts then
        (case GetStatefulSet cs namespace (stsName sts) w of
           (None, w1) \<Rightarrow> (Inl (FailedGetStatefulSet (stsName sts)), w1, tr @ [GetCall None])
         | (Some latest, w1) \<Rightarrow>
             if ObservedGeneration latest \<noteq> ObservedGeneration original
                \<and> UpdatedReplicas latest > 0 \<and> ReadyReplicas latest > 0
             then
               (case verifyCallback ''continue'' w1 of
                  (Failed, w2) \<Rightarrow>
                    (Inl (FailedCheckCanContinue (stsName sts)), w2,
                     tr @ [GetCall (Some latest), VerifyCall ''continue'' Failed])
                | (OK, w2) \<Rightarrow>
                    (Inr sts, w2, tr @ [GetCall (Some latest), VerifyCall ''continue'' OK]))
             else
               waitForUpdate cs sts namespace verifyCallback original (Suc i)
                 (Sleep cs (sleepTime * Second) w1,
                  tr @ [GetCall (Some latest), SleepCall (sleepTime * Second)]))
      else (Inl (GaveUpWaiting (stsName sts)), w, tr))"
  by pat_completeness auto
termination
  by (relation "measure (\<lambda>(cs, sts, namespace, verifyCallback, original, i, s). attempts - i)") auto

definition UpdateStatefulSetAndWait ::
  "'w Clientset \<Rightarrow> StatefulSet \<Rightarrow> string \<Rightarrow> (string \<Rightarrow> 'w \<Rightarrow> ext_result \<times> 'w) \<Rightarrow> 'w
     \<Rightarrow> (sts_error + StatefulSet) \<times> 'w \<times> call list" where
  "UpdateStatefulSetAndWait cs sts namespace verifyCallback w =
     (case GetStatefulSet cs namespace (stsName sts) w of
        (None, w1) \<Rightarrow> (Inl (FailedGetStatefulSet (stsName sts)), w1, [GetCall None])
      | (Some original, w1) \<Rightarrow>
          if UpdateStrategyType original \<noteq> RollingUpdateStatefulSetStrategyType
          then (Inl NotRollingUpdate, w1, [GetCall (Some original)])
          else
            (case Retry cs 5 (60 * Second)
                    (\<lambda>(w, tr). case verifyCallback ''stop'' w of
                                 (r, w') \<Rightarrow> (r, w', tr @ [VerifyCall ''stop'' r]))
                    (w1, [GetCall (Some original)]) of
               (Failed, w2, tr2) \<Rightarrow> (Inl (FailedCheckCanBeUpdated (stsName sts)), w2, tr2)
             | (OK, w2, tr2) \<Rightarrow>
                 (case UpdateStatefulSet cs namespace sts w2 of
                    (Failed, w3) \<Rightarrow>
                      (Inl (FailedUpdateStatefulSet (stsName sts)), w3,
                       tr2 @ [UpdateCall Failed])
                  | (OK, w3) \<Rightarrow>
                      waitForUpdate cs sts namespace verifyCallback original 0
                        (w3, tr2 @ [UpdateCall OK]))))"

section \<open>A sample environment\<close>

text \<open>
  A small world on which the functions can be run: the clock, the quorum report that
  the next status query returns, and the names of the deployments and services that
  exist. Deleting a name that is absent answers "not found"; nothing fails.
\<close>

record test_world =
  clock :: int
  report :: "MonStatusResponse option"
  deployments :: "string list"
  services :: "string list"

definition testDelete :: "string \<Rightarrow> string list \<Rightarrow> delete_result \<times> string list" where
  "testDelete n xs = (if n \<in> set xs then (Deleted, removeAll n xs) else (NotFound, xs))"

definition testContext :: "test_world Context" where
  "testContext =
     \<lparr>GetMonStatus = (\<lambda>w. (report w, w)),
      Now = clock,
      monInQuorum = (\<lambda>mon quorum. Rank mon \<in> set quorum),
      resourceName = (\<lambda>n. ''rook-ceph-mon-'' @ n),
      newMonConfig =
        (\<lambda>i. \<lparr>ResourceName = ''rook-ceph-mon-'' @ replicate (nat i) CHR ''m'',
              DaemonName = replicate (nat i) CHR ''m'', PublicIP = [], Port = 6790\<rparr>),
      NewMonInfo = (\<lambda>n ip port. \<lparr>monName = n, Endpoint = ip\<rparr>),
      DeleteDeployment =
        (\<lambda>n w. case testDelete n (deployments w) of (r, ds) \<Rightarrow> (r, w\<lparr>deployments := ds\<rparr>)),
      DeleteService =
        (\<lambda>n w. case testDelete n (services w) of (r, ss) \<Rightarrow> (r, w\<lparr>services := ss\<rparr>)),
      RunCephCommand = (\<lambda>args w. (OK, w)),
      saveMonConfig = (\<lambda>c w. (OK, w)),
      WriteConnectionConfig = (\<lambda>ms w. (OK, w)),
      Assign = (\<lambda>m w. (Some \<lparr>nodeName = ''node0'', nodeAddress = ''10.0.0.1''\<rparr>, w)),
      createService =
        (\<lambda>m w. (Some ''10.1.0.1'', w\<lparr>services := ResourceName m # services w\<rparr>)),
      startDeployments =
        (\<lambda>ms r c w. (OK, w\<lparr>deployments := map ResourceName ms @ deployments w\<rparr>)),
      startMons = (\<lambda>n c w. (OK, c, w))\<rparr>"

text \<open>The same environment, where a new deployment never comes up.\<close>

definition noStartContext :: "test_world Context" where
  "noStartContext = testContext\<lparr>startDeployments := (\<lambda>ms r c w. (Failed, w))\<rparr>"

definition mon :: "string \<Rightarrow> int \<Rightarrow> MonMapEntry" where
  "mon n r = \<lparr>Name = n, Rank = r, Address = []\<rparr>"

definition info :: "string \<Rightarrow> string \<times> MonInfo" where
  "info n = (n, \<lparr>monName = n, Endpoint = []\<rparr>)"

text \<open>
  A cluster with the given members, timeout entries and desired count, and the world in
  which the given daemons are reported, those with the given ranks in quorum, at time
  1000 s.
\<close>

definition testCluster :: "string list \<Rightarrow> (string \<times> int) list \<Rightarrow> int \<Rightarrow> Cluster" where
  "testCluster members timeouts desired =
     \<lparr>Monitors = map info members, monTimeoutList = map_of timeouts, maxMonID = 2,
      mappingNode = Map.empty, HostNetwork = False, specMonCount = desired\<rparr>"

definition testWorld :: "MonMapEntry list \<Rightarrow> int list \<Rightarrow> test_world" where
  "testWorld ms q =
     \<lparr>clock = 1000 * Second, report = Some \<lparr>Quorum = q, Mons = ms\<rparr>,
      deployments = map (\<lambda>m. ''rook-ceph-mon-'' @ Name m) ms,
      services = map (\<lambda>m. ''rook-ceph-mon-'' @ Name m) ms\<rparr>"

section \<open>Notions used in the statements\<close>

definition MinInt :: int where
  "MinInt = - (2 ^ 63)"

text \<open>
  The errors with which \<open>failoverMon\<close> returns before the deployment of the new daemon
  has started: placement, the address or service of the new daemon, and the start.
\<close>

definition newMonNotStarted :: "error option \<Rightarrow> bool" where
  "newMonNotStarted err =
     (case err of
        Some FailedPlaceNewMon \<Rightarrow> True
      | Some (MonNotInAssignmentMap n) \<Rightarrow> True
      | Some FailedCreateMonService \<Rightarrow> True
      | Some (FailedStartNewMon n) \<Rightarrow> True
      | _ \<Rightarrow> False)"

definition actionsOf :: "outcome \<times> Cluster \<times> 'w \<times> action list \<Rightarrow> action list" where
  "actionsOf r = snd (snd (snd r))"

definition clusterOf :: "outcome \<times> Cluster \<times> 'w \<times> action list \<Rightarrow> Cluster" where
  "clusterOf r = fst (snd r)"

text \<open>The names recorded in the membership, from which \<open>checkHealth\<close> builds \<open>monsNotFound\<close>.\<close>

definition memberNames :: "Cluster \<Rightarrow> string list" where
  "memberNames c = map (\<lambda>kv. monName (snd kv)) (Monitors c)"

text \<open>More daemons are reported than desired.\<close>

definition headroom :: "MonStatusResponse \<Rightarrow> int \<Rightarrow> bool" where
  "headroom status desiredMonCount = (int (length (Mons status)) > desiredMonCount)"

definition worldOf :: "outcome \<times> Cluster \<times> 'w \<times> action list \<Rightarrow> 'w" where
  "worldOf r = fst (snd (snd r))"

section \<open>Removal and failover\<close>

lemmas sample_defs =
  testContext_def noStartContext_def testDelete_def mon_def info_def testCluster_def
  testWorld_def

lemma removeMon_frame:
  assumes "removeMon ctx name (c, w) = (err, c', w')"
  shows "maxMonID c' = maxMonID c" "monTimeoutList c' = monTimeoutList c"
    "HostNetwork c' = HostNetwork c" "specMonCount c' = specMonCount c"
  using assms
  by (auto simp: removeMon_def removeMonitorFromQuorum_def Let_def
      split: prod.splits if_splits ext_result.splits option.splits)

lemma removeMon_not_started:
  assumes "removeMon ctx name (c, w) = (err, c', w')"
  shows "\<not> newMonNotStarted err"
  using assms
  by (auto simp: removeMon_def removeMonitorFromQuorum_def Let_def newMonNotStarted_def
      split: prod.splits if_splits ext_result.splits option.splits)

lemma removeMon_Monitors:
  assumes "removeMon ctx name (c, w) = (err, c', w')"
  shows "Monitors c' = Monitors c \<or> Monitors c' = AList.delete name (Monitors c)"
  using assms
  by (auto simp: removeMon_def removeMonitorFromQuorum_def Let_def
      split: prod.splits if_splits ext_result.splits option.splits)

lemma removeMon_success_state:
  assumes "removeMon ctx name (c, w) = (None, c', w')"
  shows "c' = c\<lparr>Monitors := AList.delete name (Monitors c),
                 mappingNode := (mappingNode c)(name := None)\<rparr>"
  using assms
  by (auto simp: removeMon_def removeMonitorFromQuorum_def Let_def fun_upd_idem
      split: prod.splits if_splits ext_result.splits option.splits)

text \<open>
  Whatever the second of two calls on the same name returns, it leaves the cluster as
  the first, successful one left it.
\<close>

lemma removeMon_twice_cluster:
  assumes first: "removeMon ctx name (c, w) = (None, c1, w1)"
    and second: "removeMon ctx name (c1, w1') = (err, c2, w2)"
  shows "c2 = c1"
proof -
  have c1: "c1 = c\<lparr>Monitors := AList.delete name (Monitors c),
                 mappingNode := (mappingNode c)(name := None)\<rparr>"
    using first by (rule removeMon_success_state)
  have gone: "mappingNode c1 name = None" "AList.delete name (Monitors c1) = Monitors c1"
    by (simp_all add: c1 delete_idem)
  show ?thesis
    using second gone
    by (auto simp: removeMon_def removeMonitorFromQuorum_def Let_def
        split: prod.splits if_splits ext_result.splits option.splits)
qed

text \<open>
  C6. Removal is idempotent. After a call of \<open>removeMon\<close> that succeeded, a second call
  on the same name, in which the deletion of the deployment and the deletion of the
  service answer "not found" and the three other steps succeed as before, succeeds as
  well and leaves the cluster exactly as the first call left it.
\<close>

theorem removeMon_idempotent:
  assumes first: "removeMon ctx name (c, w) = (None, c1, w1)"
    and dep: "DeleteDeployment ctx (resourceName ctx name) w1 = (NotFound, w2)"
    and quorum: "RunCephCommand ctx [''mon'', ''remove'', name] w2 = (OK, w3)"
    and svc: "DeleteService ctx (resourceName ctx name) w3 = (NotFound, w4)"
    and save: "saveMonConfig ctx c1 w4 = (OK, w5)"
    and wr: "WriteConnectionConfig ctx (Monitors c1) w5 = (OK, w6)"
  shows "removeMon ctx name (c1, w1) = (None, c1, w6)"
proof -
  have c1: "c1 = c\<lparr>Monitors := AList.delete name (Monitors c),
                 mappingNode := (mappingNode c)(name := None)\<rparr>"
    using first by (rule removeMon_success_state)
  have gone: "mappingNode c1 name = None" "AList.delete name (Monitors c1) = Monitors c1"
    by (simp_all add: c1 delete_idem)
  show ?thesis
    using dep quorum svc save wr gone
    by (simp add: removeMon_def removeMonitorFromQuorum_def Let_def)
qed

theorem removeMon_idempotent_witness:
  "removeMon testContext ''a''
       (testCluster [''a'', ''b''] [] 2, testWorld [mon ''a'' 0, mon ''b'' 1] [0, 1])
     = (None, testCluster [''b''] [] 2, testWorld [mon ''b'' 1] [0, 1]
               \<lparr>report := Some \<lparr>Quorum = [0, 1], Mons = [mon ''a'' 0, mon ''b'' 1]\<rparr>\<rparr>)
   \<and> removeMon testContext ''a''
       (testCluster [''b''] [] 2, testWorld [mon ''b'' 1] [0, 1]
               \<lparr>report := Some \<lparr>Quorum = [0, 1], Mons = [mon ''a'' 0, mon ''b'' 1]\<rparr>\<rparr>)
     = (None, testCluster [''b''] [] 2, testWorld [mon ''b'' 1] [0, 1]
               \<lparr>report := Some \<lparr>Quorum = [0, 1], Mons = [mon ''a'' 0, mon ''b'' 1]\<rparr>\<rparr>)"
  (is "?first \<and> ?second")
proof
  let ?w1 = "testWorld [mon ''b'' 1] [0, 1]
               \<lparr>report := Some \<lparr>Quorum = [0, 1], Mons = [mon ''a'' 0, mon ''b'' 1]\<rparr>\<rparr>"
  let ?c1 = "testCluster [''b''] [] 2"
  show first: ?first
    by (simp add: removeMon_def removeMonitorFromQuorum_def sample_defs)
  have dep: "DeleteDeployment testContext (resourceName testContext ''a'') ?w1 = (NotFound, ?w1)"
    by (simp add: sample_defs)
  have quorum: "RunCephCommand testContext [''mon'', ''remove'', ''a''] ?w1 = (OK, ?w1)"
    by (simp add: sample_defs)
  have svc: "DeleteService testContext (resourceName testContext ''a'') ?w1 = (NotFound, ?w1)"
    by (simp add: sample_defs)
  have save: "saveMonConfig testContext ?c1 ?w1 = (OK, ?w1)"
    by (simp add: sample_defs)
  have wr: "WriteConnectionConfig testContext (Monitors ?c1) ?w1 = (OK, ?w1)"
    by (simp add: sample_defs)
  show ?second
    by (rule removeMon_idempotent [OF first dep quorum svc save wr])
qed

lemma int_add_1: "MinInt \<le> x \<Longrightarrow> x < MaxInt \<Longrightarrow> int_add x 1 = x + 1"
  by (simp add: int_add_def int_wrap_def MinInt_def MaxInt_def)

lemma assignMons_frame:
  assumes "assignMons ctx ms (c, w) = (r, c', w')"
  shows "maxMonID c' = maxMonID c \<and> monTimeoutList c' = monTimeoutList c
    \<and> HostNetwork c' = HostNetwork c \<and> specMonCount c' = specMonCount c
    \<and> Monitors c' = Monitors c"
  using assms
  by (induction ms arbitrary: c w) (auto split: prod.splits option.splits)

lemma startAndRemove_maxMonID:
  assumes "startAndRemove ctx name m (c, w) = (err, c', w')"
    and "MinInt \<le> maxMonID c" "maxMonID c < MaxInt"
  shows "maxMonID c' = (if newMonNotStarted err then maxMonID c else maxMonID c + 1)"
  using assms
  by (auto simp: startAndRemove_def Let_def newMonNotStarted_def int_add_1
      split: prod.splits ext_result.splits dest: removeMon_frame(1) removeMon_not_started)

lemma keys_delete: "fst ` set (AList.delete k al) = fst ` set al - {k}"
  by (induction al) auto

lemma keys_update: "fst ` set (AList.update k v al) = insert k (fst ` set al)"
  by (induction al) auto

lemma startAndRemove_recorded:
  assumes "startAndRemove ctx name m (c, w) = (err, c', w')"
    and "\<not> newMonNotStarted err" "DaemonName m \<noteq> name"
  shows "DaemonName m \<in> fst ` set (Monitors c')"
proof (cases "startDeployments ctx [m] True
     (c\<lparr>Monitors := AList.update (DaemonName m)
           (NewMonInfo ctx (DaemonName m) (PublicIP m) (Port m)) (Monitors c)\<rparr>) w")
  case (Pair r w1)
  show ?thesis
  proof (cases r)
    case Failed
    with assms Pair show ?thesis
      by (auto simp: startAndRemove_def Let_def newMonNotStarted_def)
  next
    case OK
    with assms(1) Pair have rm: "removeMon ctx name
       (c\<lparr>Monitors := AList.update (DaemonName m)
           (NewMonInfo ctx (DaemonName m) (PublicIP m) (Port m)) (Monitors c),
          maxMonID := int_add (maxMonID c) 1\<rparr>, w1) = (err, c', w')"
      by (simp add: startAndRemove_def Let_def)
    from removeMon_Monitors [OF rm] assms(3) show ?thesis
      by (auto simp: keys_delete keys_update)
  qed
qed

lemma failoverMon_cases:
  assumes run: "failoverMon ctx name (c, w) = (err, c', w')"
  obtains (early) r w0 where "assignMons ctx [newMonConfig ctx (int_add (maxMonID c) 1)] (c, w) = (r, c', w0)"
      "err = Some FailedPlaceNewMon \<or> err = Some FailedCreateMonService
         \<or> err = Some (MonNotInAssignmentMap (DaemonName (newMonConfig ctx (int_add (maxMonID c) 1))))"
    | (start) m c1 w0 w1 where
      "assignMons ctx [newMonConfig ctx (int_add (maxMonID c) 1)] (c, w) = (OK, c1, w0)"
      "DaemonName m = DaemonName (newMonConfig ctx (int_add (maxMonID c) 1))"
      "startAndRemove ctx name m (c1, w1) = (err, c', w')"
proof (cases "assignMons ctx [newMonConfig ctx (int_add (maxMonID c) 1)] (c, w)")
  case (fields r c1 w1)
  show ?thesis
  proof (cases r)
    case Failed
    with run fields have "err = Some FailedPlaceNewMon" "c' = c1"
      by (simp_all add: failoverMon_def Let_def del: assignMons.simps)
    with fields show ?thesis by (intro early [of r w1]) simp_all
  next
    case OK
    note ok = fields [unfolded OK]
    show ?thesis
    proof (cases "HostNetwork c1")
      case True
      show ?thesis
      proof (cases "mappingNode c1 (DaemonName (newMonConfig ctx (int_add (maxMonID c) 1)))")
        case None
        with run ok True have "err = Some (MonNotInAssignmentMap
            (DaemonName (newMonConfig ctx (int_add (maxMonID c) 1))))" "c' = c1"
          by (simp_all add: failoverMon_def Let_def del: assignMons.simps)
        with ok show ?thesis by (intro early [of OK w1]) simp_all
      next
        case (Some node)
        with run ok True have "startAndRemove ctx name
            ((newMonConfig ctx (int_add (maxMonID c) 1))\<lparr>PublicIP := nodeAddress node\<rparr>) (c1, w1)
            = (err, c', w')"
          by (simp add: failoverMon_def Let_def del: assignMons.simps)
        then show ?thesis by (intro start [OF ok]) simp_all
      qed
    next
      case False
      show ?thesis
      proof (cases "createService ctx (newMonConfig ctx (int_add (maxMonID c) 1)) w1")
        case (Pair ip w2)
        show ?thesis
        proof (cases ip)
          case None
          with run ok False Pair have "err = Some FailedCreateMonService" "c' = c1"
            by (simp_all add: failoverMon_def Let_def del: assignMons.simps)
          with ok show ?thesis by (intro early [of OK w1]) simp_all
        next
          case (Some serviceIP)
          with run ok False Pair have "startAndRemove ctx name
              ((newMonConfig ctx (int_add (maxMonID c) 1))\<lparr>PublicIP := serviceIP\<rparr>) (c1, w2)
              = (err, c', w')"
            by (simp add: failoverMon_def Let_def del: assignMons.simps)
          then show ?thesis by (intro start [OF ok]) simp_all
        qed
      qed
    qed
  qed
qed

text \<open>
  C3. The identity counter in a failover. A call of \<open>failoverMon\<close> builds the new daemon
  from identity \<open>maxMonID + 1\<close>. When the call returns before the deployment of the new
  daemon is confirmed started (placement, address or service, or the start failed),
  \<open>maxMonID\<close> is unchanged; in every other case it is one more than before, so it never
  decreases and grows strictly with each started replacement, and the membership holds
  the daemon of identity \<open>maxMonID + 1\<close> (unless that is the name being removed). The
  counter is a machine integer: the statement is for a counter below the largest \<open>int\<close>.
\<close>

theorem failoverMon_maxMonID:
  assumes run: "failoverMon ctx name (c, w) = (err, c', w')"
    and range: "MinInt \<le> maxMonID c" "maxMonID c < MaxInt"
  shows "maxMonID c' = (if newMonNotStarted err then maxMonID c else maxMonID c + 1)
    \<and> (\<not> newMonNotStarted err \<and> DaemonName (newMonConfig ctx (maxMonID c + 1)) \<noteq> name
         \<longrightarrow> DaemonName (newMonConfig ctx (maxMonID c + 1)) \<in> fst ` set (Monitors c'))"
proof -
  have add: "int_add (maxMonID c) 1 = maxMonID c + 1"
    using range by (rule int_add_1)
  from run show ?thesis
  proof (cases rule: failoverMon_cases)
    case (early r w0)
    from assignMons_frame [OF early(1)] early(2) show ?thesis
      by (auto simp: newMonNotStarted_def)
  next
    case (start m c1 w0 w1)
    have fr: "maxMonID c1 = maxMonID c"
      using assignMons_frame [OF start(1)] by simp
    have id: "maxMonID c' = (if newMonNotStarted err then maxMonID c else maxMonID c + 1)"
      using startAndRemove_maxMonID [OF start(3)] range fr by simp
    have rec: "DaemonName m \<in> fst ` set (Monitors c')"
      if "\<not> newMonNotStarted err" "DaemonName m \<noteq> name"
      using start(3) that by (rule startAndRemove_recorded)
    from id rec start(2) add show ?thesis by simp
  qed
qed

theorem failoverMon_maxMonID_witness:
  "MinInt \<le> maxMonID (testCluster [''a'', ''b'', ''c''] [] 3)
   \<and> maxMonID (testCluster [''a'', ''b'', ''c''] [] 3) < MaxInt
   \<and> fst (failoverMon testContext ''c''
       (testCluster [''a'', ''b'', ''c''] [] 3, testWorld [mon ''a'' 0, mon ''b'' 1] [0, 1])) = None
   \<and> maxMonID (fst (snd (failoverMon testContext ''c''
       (testCluster [''a'', ''b'', ''c''] [] 3, testWorld [mon ''a'' 0, mon ''b'' 1] [0, 1])))) = 3
   \<and> map fst (Monitors (fst (snd (failoverMon testContext ''c''
       (testCluster [''a'', ''b'', ''c''] [] 3, testWorld [mon ''a'' 0, mon ''b'' 1] [0, 1])))))
       = [''a'', ''b'', ''mmm'']
   \<and> fst (failoverMon noStartContext ''c''
       (testCluster [''a'', ''b'', ''c''] [] 3, testWorld [mon ''a'' 0, mon ''b'' 1] [0, 1]))
       = Some (FailedStartNewMon ''mmm'')
   \<and> maxMonID (fst (snd (failoverMon noStartContext ''c''
       (testCluster [''a'', ''b'', ''c''] [] 3, testWorld [mon ''a'' 0, mon ''b'' 1] [0, 1])))) = 2"
proof -
  let ?c = "testCluster [''a'', ''b'', ''c''] [] 3"
  let ?w = "testWorld [mon ''a'' 0, mon ''b'' 1] [0, 1]"
  let ?r1 = "failoverMon testContext ''c'' (?c, ?w)"
  let ?r2 = "failoverMon noStartContext ''c'' (?c, ?w)"
  have range: "MinInt \<le> maxMonID ?c" "maxMonID ?c < MaxInt"
    by (simp_all add: sample_defs MinInt_def MaxInt_def)
  have e1: "fst ?r1 = None"
    by (simp add: failoverMon_def startAndRemove_def removeMon_def removeMonitorFromQuorum_def
        int_add_def int_wrap_def Let_def eval_nat_numeral sample_defs)
  have e2: "fst ?r2 = Some (FailedStartNewMon ''mmm'')"
    by (simp add: failoverMon_def startAndRemove_def removeMon_def removeMonitorFromQuorum_def
        int_add_def int_wrap_def Let_def eval_nat_numeral sample_defs)
  have m1: "map fst (Monitors (fst (snd ?r1))) = [''a'', ''b'', ''mmm'']"
    by (simp add: failoverMon_def startAndRemove_def removeMon_def removeMonitorFromQuorum_def
        int_add_def int_wrap_def Let_def eval_nat_numeral sample_defs)
  have c0: "maxMonID ?c = 2"
    by (simp add: sample_defs)
  have run1: "?r1 = (fst ?r1, fst (snd ?r1), snd (snd ?r1))"
    and run2: "?r2 = (fst ?r2, fst (snd ?r2), snd (snd ?r2))"
    by simp_all
  have t1: "maxMonID (fst (snd ?r1)) = 3"
    using failoverMon_maxMonID [OF run1 range] e1 c0
    by (simp add: newMonNotStarted_def)
  have t2: "maxMonID (fst (snd ?r2)) = 2"
    using failoverMon_maxMonID [OF run2 range] e2 c0
    by (simp add: newMonNotStarted_def)
  from range e1 e2 m1 t1 t2 show ?thesis by blast
qed

section \<open>The health check\<close>

lemma startAndRemove_frame:
  assumes "startAndRemove ctx name m (c, w) = (err, c', w')"
  shows "monTimeoutList c' = monTimeoutList c \<and> specMonCount c' = specMonCount c"
  using assms
  by (auto simp: startAndRemove_def Let_def
      split: prod.splits ext_result.splits dest: removeMon_frame)

lemma failoverMon_frame:
  assumes "failoverMon ctx name (c, w) = (err, c', w')"
  shows "monTimeoutList c' = monTimeoutList c \<and> specMonCount c' = specMonCount c"
  using assms
proof (cases rule: failoverMon_cases)
  case (early r w0)
  from assignMons_frame [OF early(1)] show ?thesis by simp
next
  case (start m c1 w0 w1)
  from assignMons_frame [OF start(1)] startAndRemove_frame [OF start(3)]
  show ?thesis by simp
qed

lemma failMon_result:
  assumes "failMon ctx k d name (c, w) = (a, c', w')"
  shows "a = (if k > d then Removal name else Failover name)
    \<and> monTimeoutList c' = monTimeoutList c \<and> specMonCount c' = specMonCount c"
  using assms
  by (auto simp: failMon_def split: if_splits prod.splits
      dest: removeMon_frame failoverMon_frame)

lemma scanMon_Fallthrough:
  assumes "scanMon ctx status d m s = Fallthrough s'"
  shows "monsNotFound s' = removeAll (Name m) (monsNotFound s)"
    and "allMonsInQuorum s' = (allMonsInQuorum s \<and> monInQuorum ctx m (Quorum status))"
    and "actions s' = actions s @
           (if Name m \<notin> set (monsNotFound s) \<and> monInQuorum ctx m (Quorum status)
               \<and> headroom status d
            then [StaleRemoval (Name m)] else [])"
    and "n \<noteq> Name m \<Longrightarrow> monTimeoutList (cluster s') n = monTimeoutList (cluster s) n"
    and "monTimeoutList (cluster s') (Name m) =
           (if monInQuorum ctx m (Quorum status) then None
            else Some (case monTimeoutList (cluster s) (Name m) of
                         None \<Rightarrow> Now ctx (world s) | Some t \<Rightarrow> t))"
    and "specMonCount (cluster s') = specMonCount (cluster s)"
  using assms
  by (auto simp: scanMon_def Let_def headroom_def
      split: if_splits prod.splits option.splits dest: removeMon_frame failMon_result)

lemma scanMon_Return:
  assumes "scanMon ctx status d m s = Return s'"
  shows "\<not> monInQuorum ctx m (Quorum status)"
    and "actions s' = actions s @
           [if headroom status d then Removal (Name m) else Failover (Name m)]"
    and "n \<noteq> Name m \<Longrightarrow> monTimeoutList (cluster s') n = monTimeoutList (cluster s) n"
    and "monTimeoutList (cluster s') (Name m) =
           Some (case monTimeoutList (cluster s) (Name m) of
                         None \<Rightarrow> Now ctx (world s) | Some t \<Rightarrow> t)"
    and "specMonCount (cluster s') = specMonCount (cluster s)"
  using assms
  by (auto simp: scanMon_def Let_def headroom_def
      split: if_splits prod.splits option.splits dest: removeMon_frame failMon_result)


lemma scanMons_append:
  "scanMons ctx status d (xs @ ys) s =
     (case scanMons ctx status d xs s of
        Return r \<Rightarrow> Return r
      | Fallthrough s' \<Rightarrow> scanMons ctx status d ys s')"
  by (induction xs arbitrary: s) (auto split: loop_exit.splits)

lemma scanMons_Fallthrough:
  assumes "scanMons ctx status d ms s = Fallthrough s'"
  shows "set (monsNotFound s') = set (monsNotFound s) - Name ` set ms"
    and "allMonsInQuorum s' = (allMonsInQuorum s \<and> (\<forall>m\<in>set ms. monInQuorum ctx m (Quorum status)))"
    and "\<exists>ns. actions s' = actions s @ map StaleRemoval ns
           \<and> (\<forall>n\<in>set ns. \<exists>m\<in>set ms. Name m = n \<and> monInQuorum ctx m (Quorum status)
                  \<and> headroom status d)"
    and "n \<notin> Name ` set ms \<Longrightarrow> monTimeoutList (cluster s') n = monTimeoutList (cluster s) n"
    and "specMonCount (cluster s') = specMonCount (cluster s)"
  using assms
proof (induction ms arbitrary: s)
  case Nil
  {
    case 1 then show ?case by simp
  next
    case 2 then show ?case by simp
  next
    case 3 then show ?case by simp
  next
    case 4 then show ?case by simp
  next
    case 5 then show ?case by simp
  }
next
  case (Cons m ms)
  {
    case 1
    then obtain s1 where step: "scanMon ctx status d m s = Fallthrough s1"
      and rest: "scanMons ctx status d ms s1 = Fallthrough s'"
      by (auto split: loop_exit.splits)
    from Cons.IH(1) [OF rest] scanMon_Fallthrough(1) [OF step]
    show ?case by auto
  next
    case 2
    then obtain s1 where step: "scanMon ctx status d m s = Fallthrough s1"
      and rest: "scanMons ctx status d ms s1 = Fallthrough s'"
      by (auto split: loop_exit.splits)
    from Cons.IH(2) [OF rest] scanMon_Fallthrough(2) [OF step]
    show ?case by auto
  next
    case 3
    then obtain s1 where step: "scanMon ctx status d m s = Fallthrough s1"
      and rest: "scanMons ctx status d ms s1 = Fallthrough s'"
      by (auto split: loop_exit.splits)
    from Cons.IH(3) [OF rest] obtain ns where
      ns: "actions s' = actions s1 @ map StaleRemoval ns"
        "\<forall>n\<in>set ns. \<exists>m\<in>set ms. Name m = n \<and> monInQuorum ctx m (Quorum status)
                  \<and> headroom status d"
      by blast
    show ?case
    proof (cases "Name m \<notin> set (monsNotFound s) \<and> monInQuorum ctx m (Quorum status)
               \<and> headroom status d")
      case True
      with scanMon_Fallthrough(3) [OF step] ns(1)
      have "actions s' = actions s @ map StaleRemoval (Name m # ns)" by simp
      moreover from True ns(2)
      have "\<forall>n\<in>set (Name m # ns). \<exists>m'\<in>set (m # ms). Name m' = n
            \<and> monInQuorum ctx m' (Quorum status) \<and> headroom status d"
        by auto
      ultimately show ?thesis by blast
    next
      case False
      with scanMon_Fallthrough(3) [OF step] ns(1)
      have "actions s' = actions s @ map StaleRemoval ns" by auto
      moreover from ns(2)
      have "\<forall>n\<in>set ns. \<exists>m'\<in>set (m # ms). Name m' = n
            \<and> monInQuorum ctx m' (Quorum status) \<and> headroom status d"
        by auto
      ultimately show ?thesis by blast
    qed
  next
    case 4
    then obtain s1 where step: "scanMon ctx status d m s = Fallthrough s1"
      and rest: "scanMons ctx status d ms s1 = Fallthrough s'"
      by (auto split: loop_exit.splits)
    from 4(1) have "n \<noteq> Name m" "n \<notin> Name ` set ms" by auto
    with Cons.IH(4) [OF this(2) rest] scanMon_Fallthrough(4) [OF step]
    show ?case by simp
  next
    case 5
    then obtain s1 where step: "scanMon ctx status d m s = Fallthrough s1"
      and rest: "scanMons ctx status d ms s1 = Fallthrough s'"
      by (auto split: loop_exit.splits)
    from Cons.IH(5) [OF rest] scanMon_Fallthrough(6) [OF step]
    show ?case by simp
  }
qed


lemma scanMons_Return:
  assumes "scanMons ctx status d ms s = Return s'"
  shows "\<exists>ns m. actions s' = actions s @ map StaleRemoval ns
             @ [if headroom status d then Removal (Name m) else Failover (Name m)]
           \<and> m \<in> set ms \<and> \<not> monInQuorum ctx m (Quorum status)
           \<and> (\<forall>n\<in>set ns. \<exists>m\<in>set ms. Name m = n \<and> monInQuorum ctx m (Quorum status)
                  \<and> headroom status d)"
    and "n \<notin> Name ` set ms \<Longrightarrow> monTimeoutList (cluster s') n = monTimeoutList (cluster s) n"
  using assms
proof (induction ms arbitrary: s)
  case Nil
  {
    case 1 then show ?case by simp
  next
    case 2 then show ?case by simp
  }
next
  case (Cons m ms)
  {
    case 1
    show ?case
    proof (cases "scanMon ctx status d m s")
      case (Return r)
      with 1 have r: "r = s'" by simp
      from scanMon_Return(1,2) [OF Return [unfolded r]]
      have "actions s' = actions s @ map StaleRemoval []
             @ [if headroom status d then Removal (Name m) else Failover (Name m)]"
        and "\<not> monInQuorum ctx m (Quorum status)"
        by simp_all
      then show ?thesis by (intro exI [of _ "[]"] exI [of _ m]) simp
    next
      case (Fallthrough s1)
      with 1 have rest: "scanMons ctx status d ms s1 = Return s'" by simp
      from Cons.IH(1) [OF rest] obtain ns m' where
        ns: "actions s' = actions s1 @ map StaleRemoval ns
             @ [if headroom status d then Removal (Name m') else Failover (Name m')]"
          "m' \<in> set ms" "\<not> monInQuorum ctx m' (Quorum status)"
          "\<forall>n\<in>set ns. \<exists>m\<in>set ms. Name m = n \<and> monInQuorum ctx m (Quorum status)
                  \<and> headroom status d"
        by blast
      let ?st = "if Name m \<notin> set (monsNotFound s) \<and> monInQuorum ctx m (Quorum status)
               \<and> headroom status d then [Name m] else []"
      from scanMon_Fallthrough(3) [OF Fallthrough] ns(1)
      have "actions s' = actions s @ map StaleRemoval (?st @ ns)
             @ [if headroom status d then Removal (Name m') else Failover (Name m')]"
        by simp
      moreover from ns(4)
      have "\<forall>n\<in>set (?st @ ns). \<exists>m'\<in>set (m # ms). Name m' = n
            \<and> monInQuorum ctx m' (Quorum status) \<and> headroom status d"
        by auto
      ultimately show ?thesis using ns(2,3)
        by (intro exI [of _ "?st @ ns"] exI [of _ m']) simp
    qed
  next
    case 2
    from 2(1) have ne: "n \<noteq> Name m" "n \<notin> Name ` set ms" by auto
    show ?case
    proof (cases "scanMon ctx status d m s")
      case (Return r)
      with 2 have r: "r = s'" by simp
      from scanMon_Return(3) [OF Return [unfolded r] ne(1)] show ?thesis .
    next
      case (Fallthrough s1)
      with 2 have rest: "scanMons ctx status d ms s1 = Return s'" by simp
      from Cons.IH(2) [OF ne(2) rest] scanMon_Fallthrough(4) [OF Fallthrough ne(1)]
      show ?thesis by simp
    qed
  }
qed

lemma afterScan_cases:
  assumes "afterScan ctx status d s = (r, c', w', acts)"
  shows "(acts = actions s \<and> c' = cluster s \<and> w' = world s \<and> monsNotFound s = [])
    \<or> (\<exists>n rest. monsNotFound s = n # rest
          \<and> acts = actions s @ [if int (length (Monitors (cluster s))) > d
                                 then Removal n else Failover n]
          \<and> monTimeoutList c' = monTimeoutList (cluster s))
    \<or> (monsNotFound s = [] \<and> int (length (Mons status)) < d
          \<and> acts = actions s @ [ScaleUp d]
          \<and> c' = fst (snd (startMons ctx d (cluster s) (world s))))
    \<or> (\<exists>m0 rest. monsNotFound s = [] \<and> Mons status = m0 # rest
          \<and> allMonsInQuorum s \<and> headroom status d
          \<and> \<not> (d < 2 \<and> length (Mons status) = 2)
          \<and> acts = actions s @ [ScaleDown (Name m0)]
          \<and> monTimeoutList c' = monTimeoutList (cluster s))"
  using assms
  by (auto simp: afterScan_def headroom_def
      split: list.splits if_splits prod.splits dest: failMon_result removeMon_frame)


lemma checkHealth_status:
  assumes "GetMonStatus ctx w = (Some status, w1)"
  shows "checkHealth ctx (c, w) =
     (case scanMons ctx status (specMonCount c) (Mons status) (scanInit c w1) of
        Return s \<Rightarrow> (Returned None, cluster s, world s, actions s)
      | Fallthrough s \<Rightarrow> afterScan ctx status (specMonCount c) s)"
  using assms by (simp add: checkHealth_def Let_def)

lemma scanInit_simps:
  "actions (scanInit c w) = []" "cluster (scanInit c w) = c" "world (scanInit c w) = w"
  "allMonsInQuorum (scanInit c w) = True"
  "set (monsNotFound (scanInit c w)) = set (memberNames c)"
  by (simp_all add: scanInit_def memberNames_def)

lemma ScaleDown_source:
  assumes status: "GetMonStatus ctx w = (Some status, w1)"
    and sd: "ScaleDown n \<in> set (actionsOf (checkHealth ctx (c, w)))"
  shows "Mons status \<noteq> [] \<and> n = Name (hd (Mons status))
    \<and> (\<forall>m\<in>set (Mons status). monInQuorum ctx m (Quorum status))
    \<and> headroom status (specMonCount c)
    \<and> \<not> (specMonCount c < 2 \<and> length (Mons status) = 2)"
proof (cases "scanMons ctx status (specMonCount c) (Mons status) (scanInit c w1)")
  case (Return s)
  from scanMons_Return(1) [OF Return] sd checkHealth_status [OF status, of c] Return
  show ?thesis
    by (auto simp: actionsOf_def scanInit_simps split: if_splits)
next
  case (Fallthrough s)
  obtain r c' w' acts where a: "afterScan ctx status (specMonCount c) s = (r, c', w', acts)"
    by (cases "afterScan ctx status (specMonCount c) s") auto
  with sd checkHealth_status [OF status, of c] Fallthrough
  have sd': "ScaleDown n \<in> set acts"
    by (simp add: actionsOf_def)
  from scanMons_Fallthrough(3) [OF Fallthrough] obtain ns where
    ns: "actions s = map StaleRemoval ns"
    by (auto simp: scanInit_simps)
  from scanMons_Fallthrough(2) [OF Fallthrough]
  have allq: "allMonsInQuorum s = (\<forall>m\<in>set (Mons status). monInQuorum ctx m (Quorum status))"
    by (simp add: scanInit_simps)
  from afterScan_cases [OF a] sd' ns allq show ?thesis
    by (auto split: if_splits)
qed


lemmas run_defs =
  checkHealth_def scanInit_def scanMon_def afterScan_def failMon_def failoverMon_def
  startAndRemove_def removeMon_def removeMonitorFromQuorum_def MonOutTimeout_def Second_def
  int_add_def int_wrap_def actionsOf_def clusterOf_def worldOf_def Let_def eval_nat_numeral

text \<open>
  C10. The member that a scale-down removes is the first element of the reported list:
  whenever two runs of \<open>checkHealth\<close>, from any two clusters and worlds, get the same
  quorum report and both scale down, they remove the same daemon, the one at index 0 of
  the report.
\<close>

theorem scale_down_first_reported:
  assumes s1: "GetMonStatus ctx1 w1 = (Some status, w1')"
    and s2: "GetMonStatus ctx2 w2 = (Some status, w2')"
    and d1: "ScaleDown n1 \<in> set (actionsOf (checkHealth ctx1 (c1, w1)))"
    and d2: "ScaleDown n2 \<in> set (actionsOf (checkHealth ctx2 (c2, w2)))"
  shows "Mons status \<noteq> [] \<and> n1 = Name (Mons status ! 0) \<and> n2 = n1"
  using ScaleDown_source [OF s1 d1] ScaleDown_source [OF s2 d2]
  by (simp add: hd_conv_nth)

theorem scale_down_first_reported_witness:
  "ScaleDown ''a'' \<in> set (actionsOf (checkHealth testContext
       (testCluster [''a'', ''b'', ''c''] [] 2,
        testWorld [mon ''a'' 0, mon ''b'' 1, mon ''c'' 2] [0, 1, 2])))
   \<and> ScaleDown ''a'' \<in> set (actionsOf (checkHealth testContext
       (testCluster [''c'', ''b'', ''a''] [(''b'', 5)] 1,
        testWorld [mon ''a'' 0, mon ''b'' 1, mon ''c'' 2] [0, 1, 2]\<lparr>clock := 7\<rparr>)))
   \<and> Name ([mon ''a'' 0, mon ''b'' 1, mon ''c'' 2] ! 0) = ''a''"
proof -
  let ?ms = "[mon ''a'' 0, mon ''b'' 1, mon ''c'' 2]"
  let ?w1 = "testWorld ?ms [0, 1, 2]"
  let ?w2 = "testWorld ?ms [0, 1, 2]\<lparr>clock := 7\<rparr>"
  let ?st = "\<lparr>Quorum = [0, 1, 2], Mons = ?ms\<rparr>"
  have s1: "GetMonStatus testContext ?w1 = (Some ?st, ?w1)"
    and s2: "GetMonStatus testContext ?w2 = (Some ?st, ?w2)"
    by (simp_all add: sample_defs)
  have d1: "ScaleDown ''a'' \<in> set (actionsOf (checkHealth testContext
       (testCluster [''a'', ''b'', ''c''] [] 2, ?w1)))"
    by (simp add: run_defs sample_defs)
  have d2: "ScaleDown ''a'' \<in> set (actionsOf (checkHealth testContext
       (testCluster [''c'', ''b'', ''a''] [(''b'', 5)] 1, ?w2)))"
    by (simp add: run_defs sample_defs)
  from scale_down_first_reported [OF s1 s2 d1 d2] d1 d2 show ?thesis
    by simp
qed

lemma scanMon_quiet:
  assumes "monInQuorum ctx m (Quorum status)" "Name m \<in> set (monsNotFound s)"
  shows "scanMon ctx status d m s =
     Fallthrough (s\<lparr>monsNotFound := removeAll (Name m) (monsNotFound s),
        cluster := (cluster s)\<lparr>monTimeoutList :=
           (monTimeoutList (cluster s))(Name m := None)\<rparr>\<rparr>)"
  using assms by (simp add: scanMon_def Let_def)

lemma scanMons_quiet:
  assumes "\<forall>m\<in>set ms. monInQuorum ctx m (Quorum status)"
    and "distinct (map Name ms)" and "Name ` set ms \<subseteq> set (monsNotFound s)"
  shows "\<exists>s'. scanMons ctx status d ms s = Fallthrough s' \<and> actions s' = actions s
           \<and> world s' = world s \<and> Monitors (cluster s') = Monitors (cluster s)"
  using assms
proof (induction ms arbitrary: s)
  case Nil
  then show ?case by simp
next
  case (Cons m ms)
  let ?s1 = "s\<lparr>monsNotFound := removeAll (Name m) (monsNotFound s),
        cluster := (cluster s)\<lparr>monTimeoutList :=
           (monTimeoutList (cluster s))(Name m := None)\<rparr>\<rparr>"
  from Cons.prems have step: "scanMon ctx status d m s = Fallthrough ?s1"
    by (intro scanMon_quiet) simp_all
  from Cons.prems have "Name ` set ms \<subseteq> set (monsNotFound ?s1)"
    by (auto simp: image_iff)
  with Cons.IH [of ?s1] Cons.prems obtain s' where
    "scanMons ctx status d ms ?s1 = Fallthrough s'" "actions s' = actions ?s1"
    "world s' = world ?s1" "Monitors (cluster s') = Monitors (cluster ?s1)"
    by auto
  with step show ?case by simp
qed

text \<open>
  C5. Scale-down and the floor of two. A cycle scales down only when every reported
  daemon is in quorum and the reported count exceeds the desired count, and never when
  the desired count is below 2 while exactly 2 daemons are reported. In that situation,
  when the report and the membership name the same daemons and all are in quorum, the
  cycle returns nil having made no remedial call at all and without touching the world
  or the membership.
\<close>

theorem scale_down_floor:
  assumes status: "GetMonStatus ctx w = (Some status, w1)"
  shows "(\<forall>n. ScaleDown n \<in> set (actionsOf (checkHealth ctx (c, w))) \<longrightarrow>
            (\<forall>m\<in>set (Mons status). monInQuorum ctx m (Quorum status))
            \<and> int (length (Mons status)) > specMonCount c
            \<and> \<not> (specMonCount c < 2 \<and> length (Mons status) = 2))
    \<and> (specMonCount c < 2 \<and> length (Mons status) = 2 \<longrightarrow>
          (\<forall>n. ScaleDown n \<notin> set (actionsOf (checkHealth ctx (c, w)))))
    \<and> (specMonCount c < 2 \<and> length (Mons status) = 2
          \<and> (\<forall>m\<in>set (Mons status). monInQuorum ctx m (Quorum status))
          \<and> distinct (map Name (Mons status))
          \<and> set (map Name (Mons status)) = set (memberNames c) \<longrightarrow>
          fst (checkHealth ctx (c, w)) = Returned None
          \<and> actionsOf (checkHealth ctx (c, w)) = []
          \<and> worldOf (checkHealth ctx (c, w)) = w1
          \<and> Monitors (clusterOf (checkHealth ctx (c, w))) = Monitors c)"
proof (intro conjI allI impI)
  fix n assume "ScaleDown n \<in> set (actionsOf (checkHealth ctx (c, w)))"
  from ScaleDown_source [OF status this]
  show "\<forall>m\<in>set (Mons status). monInQuorum ctx m (Quorum status)"
    and "int (length (Mons status)) > specMonCount c"
    and "\<not> (specMonCount c < 2 \<and> length (Mons status) = 2)"
    by (simp_all add: headroom_def)
next
  fix n assume "specMonCount c < 2 \<and> length (Mons status) = 2"
  with ScaleDown_source [OF status, of n c]
  show "ScaleDown n \<notin> set (actionsOf (checkHealth ctx (c, w)))"
    by blast
next
  assume a: "specMonCount c < 2 \<and> length (Mons status) = 2
          \<and> (\<forall>m\<in>set (Mons status). monInQuorum ctx m (Quorum status))
          \<and> distinct (map Name (Mons status))
          \<and> set (map Name (Mons status)) = set (memberNames c)"
  then have "Name ` set (Mons status) \<subseteq> set (monsNotFound (scanInit c w1))"
    by (simp add: scanInit_simps)
  with a scanMons_quiet [of "Mons status" ctx status "scanInit c w1" "specMonCount c"]
  obtain s where s: "scanMons ctx status (specMonCount c) (Mons status) (scanInit c w1)
        = Fallthrough s"
    "actions s = []" "world s = w1" "Monitors (cluster s) = Monitors c"
    by (auto simp: scanInit_simps)
  from scanMons_Fallthrough(1,2) [OF s(1)] a
  have nf: "monsNotFound s = []" and allq: "allMonsInQuorum s"
    by (simp_all add: scanInit_simps)
  from a nf allq s(2-)
  have "afterScan ctx status (specMonCount c) s = (Returned None, cluster s, w1, [])"
    by (simp add: afterScan_def)
  with checkHealth_status [OF status, of c] s
  have "checkHealth ctx (c, w) = (Returned None, cluster s, w1, [])"
    by simp
  with s(4)
  show "fst (checkHealth ctx (c, w)) = Returned None"
    and "actionsOf (checkHealth ctx (c, w)) = []"
    and "worldOf (checkHealth ctx (c, w)) = w1"
    and "Monitors (clusterOf (checkHealth ctx (c, w))) = Monitors c"
    by (simp_all add: actionsOf_def worldOf_def clusterOf_def)
qed


theorem scale_down_floor_witness:
  "specMonCount (testCluster [''a'', ''b''] [] 1) < 2
   \<and> length [mon ''a'' 0, mon ''b'' 1] = 2
   \<and> actionsOf (checkHealth testContext
         (testCluster [''a'', ''b''] [] 1, testWorld [mon ''a'' 0, mon ''b'' 1] [0, 1])) = []
   \<and> ScaleDown ''a'' \<in> set (actionsOf (checkHealth testContext
         (testCluster [''a'', ''b'', ''c''] [] 2,
          testWorld [mon ''a'' 0, mon ''b'' 1, mon ''c'' 2] [0, 1, 2])))
   \<and> monInQuorum testContext (mon ''a'' 0) [0, 1, 2]
   \<and> monInQuorum testContext (mon ''b'' 1) [0, 1, 2]
   \<and> monInQuorum testContext (mon ''c'' 2) [0, 1, 2]
   \<and> int (length [mon ''a'' 0, mon ''b'' 1, mon ''c'' 2])
         > specMonCount (testCluster [''a'', ''b'', ''c''] [] 2)"
proof -
  let ?cA = "testCluster [''a'', ''b''] [] 1"
  let ?msA = "[mon ''a'' 0, mon ''b'' 1]"
  let ?wA = "testWorld ?msA [0, 1]"
  let ?stA = "\<lparr>Quorum = [0, 1], Mons = ?msA\<rparr>"
  let ?cB = "testCluster [''a'', ''b'', ''c''] [] 2"
  let ?msB = "[mon ''a'' 0, mon ''b'' 1, mon ''c'' 2]"
  let ?wB = "testWorld ?msB [0, 1, 2]"
  let ?stB = "\<lparr>Quorum = [0, 1, 2], Mons = ?msB\<rparr>"
  have sA: "GetMonStatus testContext ?wA = (Some ?stA, ?wA)"
    and sB: "GetMonStatus testContext ?wB = (Some ?stB, ?wB)"
    by (simp_all add: sample_defs)
  have hA: "specMonCount ?cA < 2 \<and> length (Mons ?stA) = 2
      \<and> (\<forall>m\<in>set (Mons ?stA). monInQuorum testContext m (Quorum ?stA))
      \<and> distinct (map Name (Mons ?stA))
      \<and> set (map Name (Mons ?stA)) = set (memberNames ?cA)"
    by (simp add: sample_defs memberNames_def)
  have dB: "ScaleDown ''a'' \<in> set (actionsOf (checkHealth testContext (?cB, ?wB)))"
    by (simp add: run_defs sample_defs)
  from scale_down_floor [OF sA, of ?cA] hA
  have "actionsOf (checkHealth testContext (?cA, ?wA)) = []"
    by blast
  moreover from scale_down_floor [OF sB, of ?cB] dB
  have "(\<forall>m\<in>set ?msB. monInQuorum testContext m [0, 1, 2])
    \<and> int (length ?msB) > specMonCount ?cB"
    by auto
  ultimately show ?thesis
    using hA dB by simp
qed

text \<open>
  C9. The count that \<open>failMon\<close> compares with the desired count. When the scan ends at
  a reported daemon that is out of quorum past its timeout, the choice between removal
  and failover is made on the size of the reported list. When the scan runs through and
  a member is missing from the report, the choice is made on the size of the membership
  as it is then.
\<close>

theorem failMon_count_compared:
  assumes status: "GetMonStatus ctx w = (Some status, w1)"
  shows "(\<forall>s. scanMons ctx status (specMonCount c) (Mons status) (scanInit c w1) = Return s \<longrightarrow>
            (\<exists>stale m. m \<in> set (Mons status) \<and> \<not> monInQuorum ctx m (Quorum status)
               \<and> actionsOf (checkHealth ctx (c, w)) = map StaleRemoval stale @
                    [if int (length (Mons status)) > specMonCount c
                     then Removal (Name m) else Failover (Name m)]))
    \<and> (\<forall>s n rest. scanMons ctx status (specMonCount c) (Mons status) (scanInit c w1)
                      = Fallthrough s \<and> monsNotFound s = n # rest \<longrightarrow>
            n \<in> set (memberNames c) \<and> n \<notin> Name ` set (Mons status)
            \<and> actionsOf (checkHealth ctx (c, w)) = actions s @
                 [if int (length (Monitors (cluster s))) > specMonCount c
                  then Removal n else Failover n])"
proof (intro conjI allI impI)
  fix s
  assume r: "scanMons ctx status (specMonCount c) (Mons status) (scanInit c w1) = Return s"
  from scanMons_Return(1) [OF r] obtain ns m where
    "actions s = map StaleRemoval ns
        @ [if headroom status (specMonCount c) then Removal (Name m) else Failover (Name m)]"
    "m \<in> set (Mons status)" "\<not> monInQuorum ctx m (Quorum status)"
    by (auto simp: scanInit_simps)
  moreover from checkHealth_status [OF status, of c] r
  have "actionsOf (checkHealth ctx (c, w)) = actions s"
    by (simp add: actionsOf_def)
  ultimately show "\<exists>stale m. m \<in> set (Mons status) \<and> \<not> monInQuorum ctx m (Quorum status)
               \<and> actionsOf (checkHealth ctx (c, w)) = map StaleRemoval stale @
                    [if int (length (Mons status)) > specMonCount c
                     then Removal (Name m) else Failover (Name m)]"
    unfolding headroom_def by metis
next
  fix s n rest
  assume f: "scanMons ctx status (specMonCount c) (Mons status) (scanInit c w1)
                      = Fallthrough s \<and> monsNotFound s = n # rest"
  then have ft: "scanMons ctx status (specMonCount c) (Mons status) (scanInit c w1)
      = Fallthrough s" and nf: "monsNotFound s = n # rest"
    by simp_all
  from scanMons_Fallthrough(1) [OF ft] nf
  show "n \<in> set (memberNames c)" and "n \<notin> Name ` set (Mons status)"
    by (auto simp: scanInit_simps)
  obtain r c' w' acts where a: "afterScan ctx status (specMonCount c) s = (r, c', w', acts)"
    by (cases "afterScan ctx status (specMonCount c) s") auto
  from afterScan_cases [OF a] nf
  have "acts = actions s @ [if int (length (Monitors (cluster s))) > specMonCount c
                  then Removal n else Failover n]"
    by auto
  with checkHealth_status [OF status, of c] ft a
  show "actionsOf (checkHealth ctx (c, w)) = actions s @
                 [if int (length (Monitors (cluster s))) > specMonCount c
                  then Removal n else Failover n]"
    by (simp add: actionsOf_def)
qed

end
